theory Spec2Isabelle
  imports Complex_Main "HOL-Library.Word" "HOL-Library.Sublist"
begin

unbundle bit_operations_syntax

section \<open>Python values used by the chat application\<close>

text \<open>
  \<^verbatim>\<open>bytes\<close> objects are lists of 8-bit words. Each exception that a modelled
  expression can raise is a constructor of \<open>error\<close>; a function that can raise returns
  \<open>error + 'a\<close> with \<open>Inl\<close> for the exception.
\<close>

type_synonym byte = "8 word"

datatype error = ValueError | OverflowError | ZeroDivisionError

text \<open>\<^verbatim>\<open>a // b\<close> on non-negative integers: raises when the divisor is zero.\<close>

definition py_floordiv :: "nat \<Rightarrow> nat \<Rightarrow> error + nat" where
  "py_floordiv a b = (if b = 0 then Inl ZeroDivisionError else Inr (a div b))"

section \<open>CryptoManager\<close>

record CryptoManager =
  key :: "byte list"
  peer_key :: "byte list option"

text \<open>\<^verbatim>\<open>__init__\<close>: the 32 bytes of \<^verbatim>\<open>os.urandom(32)\<close> are an input.\<close>

definition CryptoManager_init :: "byte list \<Rightarrow> CryptoManager" where
  "CryptoManager_init urandom32 = \<lparr>key = urandom32, peer_key = None\<rparr>"

definition get_public_key_bytes :: "CryptoManager \<Rightarrow> byte list" where
  "get_public_key_bytes self = key self"

definition set_peer_key :: "CryptoManager \<Rightarrow> byte list \<Rightarrow> CryptoManager" where
  "set_peer_key self pk = self\<lparr>peer_key := Some pk\<rparr>"

text \<open>
  \<^verbatim>\<open>encrypt\<close>: \<^verbatim>\<open>not self.peer_key\<close> holds for \<^verbatim>\<open>None\<close> and for the empty
  bytes object. Otherwise the peer key is repeated \<^verbatim>\<open>len(plaintext) // len(peer_key) + 1\<close>
  times, cut to the length of the plaintext and zipped with it.
\<close>

definition encrypt :: "CryptoManager \<Rightarrow> byte list \<Rightarrow> error + byte list" where
  "encrypt self plaintext =
     (case peer_key self of
        None \<Rightarrow> Inr plaintext
      | Some pk \<Rightarrow>
          if pk = [] then Inr plaintext
          else (case py_floordiv (length plaintext) (length pk) of
                  Inl e \<Rightarrow> Inl e
                | Inr q \<Rightarrow>
                    let keystream = concat (replicate (q + 1) pk)
                    in Inr (map (\<lambda>(p, k). p XOR k)
                              (zip plaintext (take (length plaintext) keystream)))))"

definition decrypt :: "CryptoManager \<Rightarrow> byte list \<Rightarrow> error + byte list" where
  "decrypt self ciphertext = encrypt self ciphertext"

section \<open>MessageStore\<close>

text \<open>
  A message is the dictionary built by \<^verbatim>\<open>add\<close>, with its four keys as fields. Clock
  readings (\<^verbatim>\<open>time.time()\<close>) and expiry stamps are Python floats; they are modelled
  as real numbers, so rounding and infinities are outside the model. The label
  \<^verbatim>\<open>time.strftime("%H:%M")\<close> depends on the local time zone and is an input.
\<close>

record chat_message =
  sender :: string
  message :: string
  expiry :: "real option"
  time :: string

record MessageStore =
  messages :: "chat_message list"

definition MessageStore_init :: MessageStore where
  "MessageStore_init = \<lparr>messages = []\<rparr>"

text \<open>
  The int operand of \<^verbatim>\<open>time.time() + ttl\<close> is converted to a float first; the
  conversion raises \<^verbatim>\<open>OverflowError\<close> for an integer that rounds beyond the largest
  double, that is from \<open>2 ^ 1024 - 2 ^ 970\<close> on.
\<close>

definition float_of_int :: "int \<Rightarrow> error + real" where
  "float_of_int n =
     (if 2 ^ 1024 - 2 ^ 970 \<le> \<bar>n\<bar> then Inl OverflowError else Inr (real_of_int n))"

text \<open>
  \<^verbatim>\<open>expiry = time.time() + ttl if ttl else None\<close>: \<^verbatim>\<open>ttl\<close> is falsy when it is
  \<^verbatim>\<open>None\<close> or \<open>0\<close>.
\<close>

definition add ::
  "MessageStore \<Rightarrow> string \<Rightarrow> string \<Rightarrow> int option \<Rightarrow> real \<Rightarrow> string \<Rightarrow> error + MessageStore" where
  "add self sndr msg ttl now hhmm =
     (case (case ttl of
              None \<Rightarrow> Inr None
            | Some t \<Rightarrow>
                if t = 0 then Inr None
                else (case float_of_int t of
                        Inl e \<Rightarrow> Inl e
                      | Inr ft \<Rightarrow> Inr (Some (now + ft)))) of
        Inl e \<Rightarrow> Inl e
      | Inr expiry_val \<Rightarrow>
          Inr (self\<lparr>messages := messages self @
                 [\<lparr>sender = sndr, message = msg, expiry = expiry_val, time = hhmm\<rparr>]\<rparr>))"

definition delete_all :: "MessageStore \<Rightarrow> MessageStore" where
  "delete_all self = self\<lparr>messages := []\<rparr>"

text \<open>
  \<^verbatim>\<open>not m.get("expiry") or m["expiry"] > now\<close>: the first disjunct holds for
  \<^verbatim>\<open>None\<close> and for the float \<open>0.0\<close>; the comparison is evaluated only otherwise.
\<close>

definition keeps :: "real \<Rightarrow> chat_message \<Rightarrow> bool" where
  "keeps now m =
     (case expiry m of
        None \<Rightarrow> True
      | Some e \<Rightarrow> if e = 0 then True else now < e)"

definition cleanup_expired :: "MessageStore \<Rightarrow> real \<Rightarrow> MessageStore" where
  "cleanup_expired self now = self\<lparr>messages := filter (keeps now) (messages self)\<rparr>"

text \<open>\<^verbatim>\<open>get_all\<close> returns the pruned list together with the updated store.\<close>

definition get_all :: "MessageStore \<Rightarrow> real \<Rightarrow> chat_message list \<times> MessageStore" where
  "get_all self now = (let self' = cleanup_expired self now in (messages self', self'))"

subsection \<open>Sequences of calls on a store\<close>

text \<open>
  A call carries the clock readings it makes. A call of \<^verbatim>\<open>add\<close> that raises has
  not reached \<^verbatim>\<open>append\<close>, so it leaves the store as it was.
\<close>

datatype store_call =
    Add string string "int option" real string
  | DeleteAll
  | GetAll real

fun call :: "MessageStore \<Rightarrow> store_call \<Rightarrow> MessageStore" where
  "call s (Add sndr msg ttl now hhmm) =
     (case add s sndr msg ttl now hhmm of Inl e \<Rightarrow> s | Inr s' \<Rightarrow> s')"
| "call s DeleteAll = delete_all s"
| "call s (GetAll now) = snd (get_all s now)"

definition calls :: "MessageStore \<Rightarrow> store_call list \<Rightarrow> MessageStore" where
  "calls s cs = foldl call s cs"

text \<open>The messages that a sequence of calls appends, in the order of the calls.\<close>

fun added :: "store_call list \<Rightarrow> chat_message list" where
  "added [] = []"
| "added (Add sndr msg ttl now hhmm # cs) =
     (case add MessageStore_init sndr msg ttl now hhmm of
        Inl e \<Rightarrow> added cs
      | Inr s' \<Rightarrow> messages s' @ added cs)"
| "added (DeleteAll # cs) = added cs"
| "added (GetAll now # cs) = added cs"

fun is_delete :: "store_call \<Rightarrow> bool" where
  "is_delete DeleteAll = True"
| "is_delete c = False"

fun is_add :: "store_call \<Rightarrow> bool" where
  "is_add (Add sndr msg ttl now hhmm) = True"
| "is_add c = False"


section \<open>P2PChatApp\<close>

text \<open>
  The application state without its widgets: the crypto manager, the store, the connected
  flag and the peer id.
\<close>

record P2PChatApp =
  crypto :: CryptoManager
  store :: MessageStore
  is_connected :: bool
  peer_id :: "string option"

definition P2PChatApp_init :: "byte list \<Rightarrow> P2PChatApp" where
  "P2PChatApp_init urandom32 =
     \<lparr>crypto = CryptoManager_init urandom32, store = MessageStore_init,
      is_connected = False, peer_id = None\<rparr>"

text \<open>\<^verbatim>\<open>refresh_chat\<close> reads the store through \<^verbatim>\<open>get_all\<close>; the rendering is left out.\<close>

definition refresh_chat :: "P2PChatApp \<Rightarrow> real \<Rightarrow> P2PChatApp" where
  "refresh_chat self now = self\<lparr>store := snd (get_all (store self) now)\<rparr>"

subsection \<open>\<^verbatim>\<open>str.ljust\<close> and \<^verbatim>\<open>bytes.fromhex\<close>\<close>

text \<open>
  A Python string is a list of characters; a character beyond the 8-bit range is not
  representable here and would be rejected by \<^verbatim>\<open>fromhex\<close> like every other
  non-ASCII character.
\<close>

definition ljust :: "string \<Rightarrow> nat \<Rightarrow> char \<Rightarrow> string" where
  "ljust s width fillchar = s @ replicate (width - length s) fillchar"

definition Py_ISSPACE :: "char \<Rightarrow> bool" where
  "Py_ISSPACE c = (of_char c \<in> {9, 10, 11, 12, 13, 32 :: nat})"

text \<open>The digit table of the interpreter: 37 for a character that is no digit or letter.\<close>

definition PyLong_DigitValue :: "char \<Rightarrow> nat" where
  "PyLong_DigitValue c =
     (let n = of_char c :: nat in
      if 48 \<le> n \<and> n \<le> 57 then n - 48
      else if 97 \<le> n \<and> n \<le> 122 then n - 87
      else if 65 \<le> n \<and> n \<le> 90 then n - 55
      else 37)"

text \<open>
  The loop of \<^verbatim>\<open>bytes.fromhex\<close>: ASCII whitespace is skipped before a pair of hex
  digits, never inside one; anything else raises \<^verbatim>\<open>ValueError\<close>.
\<close>

fun fromhex_loop :: "string \<Rightarrow> error + byte list" where
  "fromhex_loop [] = Inr []"
| "fromhex_loop [c] = (if Py_ISSPACE c then Inr [] else Inl ValueError)"
| "fromhex_loop (c # d # ds) =
     (if Py_ISSPACE c then fromhex_loop (d # ds)
      else if 16 \<le> PyLong_DigitValue c then Inl ValueError
      else if 16 \<le> PyLong_DigitValue d then Inl ValueError
      else (case fromhex_loop ds of
              Inl e \<Rightarrow> Inl e
            | Inr bs \<Rightarrow> Inr (of_nat (PyLong_DigitValue c * 16 + PyLong_DigitValue d) # bs)))"

definition fromhex :: "string \<Rightarrow> error + byte list" where
  "fromhex s =
     (if list_ex (\<lambda>c. 128 \<le> (of_char c :: nat)) s then Inl ValueError else fromhex_loop s)"

subsection \<open>\<^verbatim>\<open>connect_to_peer\<close>\<close>

text \<open>
  The body of the \<^verbatim>\<open>try\<close> block returns the exception together with the state
  reached when it was raised. The handler formats the exception with \<open>str_ex\<close>, the text
  the interpreter gives it. \<open>hhmm\<close> is the label read by \<^verbatim>\<open>add\<close> and \<open>now\<close> the
  clock read by \<^verbatim>\<open>refresh_chat\<close>.
\<close>

definition connect_try :: "P2PChatApp \<Rightarrow> string \<Rightarrow> string \<Rightarrow> real \<Rightarrow> (error \<times> P2PChatApp) + P2PChatApp" where
  "connect_try self pid hhmm now =
     (case fromhex (ljust pid 64 (CHR ''0'')) of
        Inl e \<Rightarrow> Inl (e, self)
      | Inr pk \<Rightarrow>
          let self1 = self\<lparr>crypto := set_peer_key (crypto self) pk,
                             peer_id := Some pid, is_connected := True\<rparr>
          in (case add (store self1) ''System''
                     (''Connected to peer '' @ take 8 pid @ ''...'') None now hhmm of
                Inl e \<Rightarrow> Inl (e, self1)
              | Inr st \<Rightarrow> Inr (refresh_chat (self1\<lparr>store := st\<rparr>) now)))"

definition connect_to_peer ::
  "(error \<Rightarrow> string) \<Rightarrow> P2PChatApp \<Rightarrow> string \<Rightarrow> string \<Rightarrow> real \<Rightarrow> error + P2PChatApp" where
  "connect_to_peer str_ex self pid hhmm now =
     (case connect_try self pid hhmm now of
        Inr self' \<Rightarrow> Inr self'
      | Inl (ex, self1) \<Rightarrow>
          (case add (store self1) ''System'' (''Connection failed: '' @ str_ex ex)
                  None now hhmm of
             Inl e \<Rightarrow> Inl e
           | Inr st \<Rightarrow> Inr (refresh_chat (self1\<lparr>store := st\<rparr>) now)))"

section \<open>Properties of the masking utility\<close>

lemma length_concat_replicate:
  "length (concat (replicate n xs)) = n * length xs"
  by (induction n) simp_all

lemma nth_concat_replicate:
  "i < n * length xs \<Longrightarrow> concat (replicate n xs) ! i = xs ! (i mod length xs)"
proof (induction n arbitrary: i)
  case 0
  then show ?case by simp
next
  case (Suc n)
  show ?case
  proof (cases "i < length xs")
    case True
    then show ?thesis by (simp add: nth_append)
  next
    case False
    then have ge: "length xs \<le> i" by simp
    with Suc.prems have "i - length xs < n * length xs" by simp
    then have "concat (replicate n xs) ! (i - length xs) = xs ! ((i - length xs) mod length xs)"
      by (rule Suc.IH)
    with False ge show ?thesis by (simp add: nth_append le_mod_geq)
  qed
qed

lemma keystream_covers:
  assumes "pk \<noteq> []"
  shows "n < (n div length pk + 1) * length pk"
proof -
  from assms have "0 < length pk" by simp
  then have "n < length pk + n div length pk * length pk"
    by (rule dividend_less_div_times)
  then show ?thesis by (simp add: algebra_simps)
qed

lemma encrypt_keyed:
  assumes "peer_key self = Some pk" and "pk \<noteq> []"
  shows "encrypt self plaintext =
           Inr (map (\<lambda>i. plaintext ! i XOR pk ! (i mod length pk)) [0..<length plaintext])"
proof -
  define n where "n = length plaintext"
  define ks where "ks = concat (replicate (n div length pk + 1) pk)"
  define out where "out = map (\<lambda>(p, k). p XOR k) (zip plaintext (take n ks))"
  have lks: "length ks = (n div length pk + 1) * length pk"
    unfolding ks_def by (rule length_concat_replicate)
  have cover: "n < length ks"
    unfolding lks by (rule keystream_covers [OF assms(2)])
  have len: "length out = n"
    using cover by (simp add: out_def n_def)
  have nth_ks: "ks ! i = pk ! (i mod length pk)" if "i < n" for i
  proof -
    from that cover have "i < (n div length pk + 1) * length pk"
      by (simp add: lks)
    then show ?thesis
      unfolding ks_def by (rule nth_concat_replicate)
  qed
  have "out = map (\<lambda>i. plaintext ! i XOR pk ! (i mod length pk)) [0..<n]"
  proof (rule nth_equalityI)
    show "length out = length (map (\<lambda>i. plaintext ! i XOR pk ! (i mod length pk)) [0..<n])"
      using len by simp
  next
    fix i assume "i < length out"
    with len have i: "i < n" by simp
    with cover have "out ! i = plaintext ! i XOR ks ! i"
      by (simp add: out_def n_def)
    with i show "out ! i = map (\<lambda>i. plaintext ! i XOR pk ! (i mod length pk)) [0..<n] ! i"
      by (simp add: nth_ks)
  qed
  moreover have "encrypt self plaintext = Inr out"
    using assms by (simp add: encrypt_def py_floordiv_def out_def ks_def n_def)
  ultimately show ?thesis
    by (simp add: n_def)
qed

text \<open>
  C5. Without a peer key (the state \<^verbatim>\<open>__init__\<close> leaves, \<open>peer_key = None\<close>)
  \<open>encrypt\<close> returns its argument unchanged and so does \<open>decrypt\<close>; neither raises.
\<close>

theorem passthrough_without_peer_key:
  "peer_key self = None \<Longrightarrow> encrypt self P = Inr P \<and> decrypt self C = Inr C"
  by (simp add: encrypt_def decrypt_def)

theorem passthrough_without_peer_key_witness:
  "peer_key (CryptoManager_init [1, 2, 3]) = None
   \<and> encrypt (CryptoManager_init [1, 2, 3]) [104, 105] = Inr [104, 105]
   \<and> decrypt (CryptoManager_init [1, 2, 3]) [7, 0, 255] = Inr [7, 0, 255]"
  using passthrough_without_peer_key [of "CryptoManager_init [1, 2, 3]" "[104, 105]" "[7, 0, 255]"]
  by (simp add: CryptoManager_init_def)

text \<open>
  C10. After \<open>set_peer_key\<close> with the empty bytes object, \<open>encrypt\<close> and \<open>decrypt\<close>
  return their argument unchanged, exactly as they do with no peer key; and
  \<open>encrypt\<close> (hence \<open>decrypt\<close>) raises \<^verbatim>\<open>ZeroDivisionError\<close> on no manager and no
  input, because the division is only reached with a non-empty peer key.
\<close>

theorem empty_peer_key_passthrough:
  "encrypt (set_peer_key self []) P = Inr P
   \<and> decrypt (set_peer_key self []) P = Inr P
   \<and> encrypt (set_peer_key self []) P = encrypt (self\<lparr>peer_key := None\<rparr>) P
   \<and> decrypt (set_peer_key self []) P = decrypt (self\<lparr>peer_key := None\<rparr>) P
   \<and> encrypt other Q \<noteq> Inl ZeroDivisionError
   \<and> decrypt other Q \<noteq> Inl ZeroDivisionError"
proof -
  have "encrypt other Q \<noteq> Inl ZeroDivisionError"
    by (simp add: encrypt_def py_floordiv_def Let_def split: option.split)
  then show ?thesis
    by (simp add: encrypt_def decrypt_def set_peer_key_def)
qed

theorem empty_peer_key_passthrough_witness:
  "encrypt (set_peer_key (CryptoManager_init [9, 9]) []) [10, 20, 30] = Inr [10, 20, 30]
   \<and> decrypt (set_peer_key (CryptoManager_init [9, 9]) []) [10, 20, 30] = Inr [10, 20, 30]"
  using empty_peer_key_passthrough [of "CryptoManager_init [9, 9]" "[10, 20, 30]"]
  by simp

text \<open>
  C4. With a non-empty peer key \<open>K\<close> set, \<open>encrypt\<close> returns a ciphertext of the length
  of the plaintext whose byte at index \<open>i\<close> is \<open>P ! i XOR K ! (i mod length K)\<close>: it is
  the plaintext combined with the key repeated \<open>length P div length K + 1\<close> times and
  cut to the length of the plaintext.
\<close>

theorem encrypt_tiles_key:
  assumes "peer_key self = Some K" and "K \<noteq> []"
  shows "\<exists>C. encrypt self P = Inr C
           \<and> length C = length P
           \<and> (\<forall>i < length P. C ! i = P ! i XOR K ! (i mod length K))
           \<and> C = map (\<lambda>(p, k). p XOR k)
                   (zip P (take (length P) (concat (replicate (length P div length K + 1) K))))"
proof -
  let ?C = "map (\<lambda>i. P ! i XOR K ! (i mod length K)) [0..<length P]"
  have enc: "encrypt self P = Inr ?C"
    using assms by (rule encrypt_keyed)
  moreover have "length ?C = length P"
    by simp
  moreover have "\<forall>i < length P. ?C ! i = P ! i XOR K ! (i mod length K)"
    by simp
  moreover have "?C = map (\<lambda>(p, k). p XOR k)
                   (zip P (take (length P) (concat (replicate (length P div length K + 1) K))))"
    using enc assms by (simp add: encrypt_def py_floordiv_def)
  ultimately show ?thesis
    by blast
qed

theorem encrypt_tiles_key_witness:
  "peer_key (set_peer_key (CryptoManager_init []) [1, 2, 3]) = Some [1, 2, 3]
   \<and> [1, 2, 3] \<noteq> ([] :: byte list)
   \<and> (\<exists>C. encrypt (set_peer_key (CryptoManager_init []) [1, 2, 3]) [10, 20, 30, 40, 50] = Inr C
         \<and> length C = 5
         \<and> (\<forall>i < 5. C ! i = [10, 20, 30, 40, 50] ! i XOR [1, 2, 3] ! (i mod 3)))"
proof -
  have k: "peer_key (set_peer_key (CryptoManager_init []) [1, 2, 3]) = Some [1, 2, 3]"
    by (simp add: set_peer_key_def)
  have ne: "[1, 2, 3] \<noteq> ([] :: byte list)"
    by simp
  from encrypt_tiles_key [OF k ne, of "[10, 20, 30, 40, 50]"] k ne show ?thesis
    by auto
qed

text \<open>
  C3. With a non-empty peer key \<open>K\<close> set, decrypting the ciphertext of \<open>P\<close> gives \<open>P\<close>
  back, and \<open>decrypt\<close> is the same operation as \<open>encrypt\<close> on every input.
\<close>

theorem masking_round_trip:
  assumes "peer_key self = Some K" and "K \<noteq> []"
  shows "(\<exists>C. encrypt self P = Inr C \<and> decrypt self C = Inr P)
         \<and> decrypt self X = encrypt self X"
proof -
  let ?C = "map (\<lambda>i. P ! i XOR K ! (i mod length K)) [0..<length P]"
  have enc: "encrypt self P = Inr ?C"
    using assms by (rule encrypt_keyed)
  have "encrypt self ?C = Inr (map (\<lambda>i. ?C ! i XOR K ! (i mod length K)) [0..<length ?C])"
    using assms by (rule encrypt_keyed)
  moreover have "map (\<lambda>i. ?C ! i XOR K ! (i mod length K)) [0..<length ?C] = P"
    by (rule nth_equalityI) (simp_all add: xor.assoc)
  ultimately have "decrypt self ?C = Inr P"
    by (simp add: decrypt_def)
  with enc show ?thesis
    by (auto simp: decrypt_def)
qed

theorem masking_round_trip_witness:
  "peer_key (set_peer_key (CryptoManager_init []) [1, 2, 3]) = Some [1, 2, 3]
   \<and> [1, 2, 3] \<noteq> ([] :: byte list)
   \<and> (\<exists>C. encrypt (set_peer_key (CryptoManager_init []) [1, 2, 3]) [10, 20, 30, 40, 50] = Inr C
         \<and> decrypt (set_peer_key (CryptoManager_init []) [1, 2, 3]) C = Inr [10, 20, 30, 40, 50])"
proof -
  have k: "peer_key (set_peer_key (CryptoManager_init []) [1, 2, 3]) = Some [1, 2, 3]"
    by (simp add: set_peer_key_def)
  have ne: "[1, 2, 3] \<noteq> ([] :: byte list)"
    by simp
  from masking_round_trip [OF k ne, of "[10, 20, 30, 40, 50]"] k ne show ?thesis
    by blast
qed

section \<open>Properties of the message store\<close>

lemma fst_get_all: "fst (get_all s now) = filter (keeps now) (messages s)"
  by (simp add: get_all_def cleanup_expired_def Let_def)

lemma messages_snd_get_all: "messages (snd (get_all s now)) = filter (keeps now) (messages s)"
  by (simp add: get_all_def cleanup_expired_def Let_def)

lemma add_falsy_ttl:
  "ttl = None \<or> ttl = Some 0 \<Longrightarrow>
   add s sndr msg ttl now hhmm =
     Inr (s\<lparr>messages := messages s @
            [\<lparr>sender = sndr, message = msg, expiry = None, time = hhmm\<rparr>]\<rparr>)"
  by (auto simp: add_def)


lemma add_appends:
  "add s sndr msg ttl now hhmm = Inr s1 \<Longrightarrow>
   \<exists>m. messages s1 = messages s @ [m] \<and> add MessageStore_init sndr msg ttl now hhmm = Inr \<lparr>messages = [m]\<rparr>"
  by (auto simp: add_def MessageStore_init_def split: option.splits if_splits sum.splits)

lemma add_raises_everywhere:
  "add s sndr msg ttl now hhmm = Inl e \<Longrightarrow> add s' sndr msg ttl now hhmm = Inl e"
  by (auto simp: add_def split: option.splits if_splits sum.splits)

lemma calls_Nil: "calls s [] = s"
  by (simp add: calls_def)

lemma calls_Cons: "calls s (c # cs) = calls (call s c) cs"
  by (simp add: calls_def)

lemma call_keeps_member:
  assumes "m \<in> set (messages s)" and "\<not> is_delete c" and "\<And>r. c = GetAll r \<Longrightarrow> keeps r m"
  shows "m \<in> set (messages (call s c))"
proof (cases c)
  case (Add sndr msg ttl now hhmm)
  show ?thesis
  proof (cases "add s sndr msg ttl now hhmm")
    case (Inl e)
    with Add assms(1) show ?thesis by simp
  next
    case (Inr s1)
    from add_appends [OF Inr] obtain x where "messages s1 = messages s @ [x]" by blast
    with Add Inr assms(1) show ?thesis by simp
  qed
next
  case DeleteAll
  with assms(2) show ?thesis by simp
next
  case (GetAll r)
  with assms(1,3) show ?thesis by (simp add: messages_snd_get_all)
qed

lemma calls_keep_member:
  assumes "m \<in> set (messages s)"
    and "\<forall>c \<in> set cs. \<not> is_delete c \<and> (\<forall>r. c = GetAll r \<longrightarrow> keeps r m)"
  shows "m \<in> set (messages (calls s cs))"
  using assms
proof (induction cs arbitrary: s)
  case Nil
  then show ?case by (simp add: calls_Nil)
next
  case (Cons c cs)
  from Cons.prems have "m \<in> set (messages (call s c))"
    by (intro call_keeps_member) auto
  moreover from Cons.prems
  have "\<forall>c \<in> set cs. \<not> is_delete c \<and> (\<forall>r. c = GetAll r \<longrightarrow> keeps r m)"
    by simp
  ultimately show ?case
    unfolding calls_Cons by (rule Cons.IH)
qed


text \<open>
  C8. Whatever the store held, after \<open>delete_all\<close> its list is empty and \<open>get_all\<close>
  returns the empty list, at every clock reading; this stays so through further calls
  as long as none of them is an \<open>add\<close>.
\<close>

theorem delete_all_clears:
  "messages (delete_all s) = []
   \<and> fst (get_all (delete_all s) now) = []
   \<and> ((\<forall>c \<in> set cs. \<not> is_add c) \<longrightarrow> fst (get_all (calls (delete_all s) cs) now) = [])"
proof -
  have empty: "messages (calls s' cs) = []"
    if "messages s' = []" and "\<forall>c \<in> set cs. \<not> is_add c" for s'
    using that
  proof (induction cs arbitrary: s')
    case Nil
    then show ?case by (simp add: calls_Nil)
  next
    case (Cons c cs)
    from Cons.prems have "messages (call s' c) = []"
      by (cases c) (simp_all add: delete_all_def messages_snd_get_all)
    with Cons.prems show ?case
      unfolding calls_Cons by (intro Cons.IH) simp_all
  qed
  have "messages (delete_all s) = []"
    by (simp add: delete_all_def)
  with empty show ?thesis
    by (simp add: fst_get_all)
qed

theorem delete_all_clears_witness:
  "list_all (\<lambda>c. \<not> is_add c) [GetAll 5, DeleteAll, GetAll 7]
   \<and> messages (delete_all \<lparr>messages = [\<lparr>sender = ''You'', message = ''hi'', expiry = None, time = ''12:00''\<rparr>]\<rparr>) = []
   \<and> fst (get_all (calls (delete_all \<lparr>messages = [\<lparr>sender = ''You'', message = ''hi'', expiry = None, time = ''12:00''\<rparr>]\<rparr>)
                      [GetAll 5, DeleteAll, GetAll 7]) 9) = []"
  using delete_all_clears [where s = "\<lparr>messages = [\<lparr>sender = ''You'', message = ''hi'', expiry = None, time = ''12:00''\<rparr>]\<rparr>"
      and cs = "[GetAll 5, DeleteAll, GetAll 7]" and now = 9]
  by simp


lemma keeps_no_stamp: "expiry m = None \<Longrightarrow> keeps r m"
  by (simp add: keeps_def)

lemma call_subseq: "subseq (messages (call s c)) (messages s @ added [c])"
proof (cases c)
  case (Add sndr msg ttl now hhmm)
  show ?thesis
  proof (cases "add s sndr msg ttl now hhmm")
    case (Inl e)
    then have "add MessageStore_init sndr msg ttl now hhmm = Inl e"
      by (rule add_raises_everywhere)
    with Add Inl show ?thesis by simp
  next
    case (Inr s1)
    from add_appends [OF Inr] obtain x where
      "messages s1 = messages s @ [x]"
      "add MessageStore_init sndr msg ttl now hhmm = Inr \<lparr>messages = [x]\<rparr>"
      by blast
    with Add Inr show ?thesis by simp
  qed
next
  case DeleteAll
  then show ?thesis by (simp add: delete_all_def)
next
  case (GetAll r)
  then show ?thesis by (simp add: messages_snd_get_all)
qed

lemma added_Cons: "added (c # cs) = added [c] @ added cs"
  by (cases c) (simp_all split: sum.split)

lemma calls_subseq: "subseq (messages (calls s cs)) (messages s @ added cs)"
proof (induction cs arbitrary: s)
  case Nil
  then show ?case by (simp add: calls_Nil)
next
  case (Cons c cs)
  have "subseq (messages (calls (call s c) cs)) (messages (call s c) @ added cs)"
    by (rule Cons.IH)
  also have "subseq (messages (call s c) @ added cs) ((messages s @ added [c]) @ added cs)"
    by (intro list_emb_append_mono call_subseq subseq_order.order_refl)
  finally show ?case
    by (simp add: calls_Cons added_Cons [of c cs])
qed

text \<open>
  C2. A message added with no TTL or with TTL \<open>0\<close> gets no expiry stamp, and every
  \<open>get_all\<close> after it returns it, at every clock reading and after any further calls
  of \<open>add\<close> and \<open>get_all\<close>, as long as \<open>delete_all\<close> has not been called.
\<close>

theorem falsy_ttl_never_expires:
  assumes "ttl = None \<or> ttl = Some 0"
    and "\<forall>c \<in> set cs. \<not> is_delete c"
    and "m = \<lparr>sender = sndr, message = msg, expiry = None, time = hhmm\<rparr>"
  shows "\<exists>s1. add s sndr msg ttl now0 hhmm = Inr s1
           \<and> messages s1 = messages s @ [m]
           \<and> m \<in> set (fst (get_all (calls s1 cs) now))"
proof -
  let ?s1 = "s\<lparr>messages := messages s @ [m]\<rparr>"
  have a: "add s sndr msg ttl now0 hhmm = Inr ?s1"
    using assms(1,3) by (simp add: add_falsy_ttl)
  have k: "keeps r m" for r
    using assms(3) by (simp add: keeps_no_stamp)
  have "m \<in> set (messages ?s1)"
    by simp
  moreover have "\<forall>c \<in> set cs. \<not> is_delete c \<and> (\<forall>r. c = GetAll r \<longrightarrow> keeps r m)"
    using assms(2) k by simp
  ultimately have "m \<in> set (messages (calls ?s1 cs))"
    by (rule calls_keep_member)
  with k have "m \<in> set (fst (get_all (calls ?s1 cs) now))"
    by (simp add: fst_get_all)
  with a show ?thesis
    by simp
qed

theorem falsy_ttl_never_expires_witness:
  "(Some 0 = None \<or> Some 0 = Some (0 :: int))
   \<and> list_all (\<lambda>c. \<not> is_delete c)
        [GetAll 1000, Add ''You'' ''bye'' (Some 5) 1000 ''12:01'', GetAll 2000]
   \<and> \<lparr>sender = ''You'', message = ''hi'', expiry = None, time = ''12:00''\<rparr>
       \<in> set (fst (get_all
                (calls \<lparr>messages = [\<lparr>sender = ''You'', message = ''hi'', expiry = None, time = ''12:00''\<rparr>]\<rparr>
                   [GetAll 1000, Add ''You'' ''bye'' (Some 5) 1000 ''12:01'', GetAll 2000])
                3000))"
proof -
  let ?m = "\<lparr>sender = ''You'', message = ''hi'', expiry = None, time = ''12:00''\<rparr>"
  let ?cs = "[GetAll 1000, Add ''You'' ''bye'' (Some 5) 1000 ''12:01'', GetAll 2000]"
  have h1: "Some 0 = None \<or> Some 0 = Some (0 :: int)" by simp
  have h2: "\<forall>c \<in> set ?cs. \<not> is_delete c" by simp
  have a: "add MessageStore_init ''You'' ''hi'' (Some 0) 900 ''12:00'' = Inr \<lparr>messages = [?m]\<rparr>"
    by (simp add: add_def MessageStore_init_def)
  from falsy_ttl_never_expires [OF h1 h2 refl, where s = MessageStore_init and sndr = "''You''"
      and msg = "''hi''" and hhmm = "''12:00''" and ?now0.0 = 900 and now = 3000]
    a h1 h2 show ?thesis
    by auto
qed




text \<open>
  C9. After any sequence of calls of \<open>add\<close>, \<open>delete_all\<close> and \<open>get_all\<close>, the list
  held by the store and the list returned by \<open>get_all\<close> are subsequences of the
  messages in the order in which they were added: survivors keep their relative order.
\<close>

theorem get_all_preserves_insertion_order:
  "subseq (messages (calls s cs)) (messages s @ added cs)
   \<and> subseq (fst (get_all (calls s cs) now)) (messages s @ added cs)
   \<and> subseq (fst (get_all (calls MessageStore_init cs) now)) (added cs)"
proof -
  have held: "subseq (messages (calls s' cs)) (messages s' @ added cs)" for s'
    by (rule calls_subseq)
  have pruned: "subseq (fst (get_all (calls s' cs) now)) (messages (calls s' cs))" for s'
    by (simp add: fst_get_all)
  have read: "subseq (fst (get_all (calls s' cs) now)) (messages s' @ added cs)" for s'
    using pruned held by (rule subseq_order.trans)
  from read [of MessageStore_init]
  have "subseq (fst (get_all (calls MessageStore_init cs) now)) (added cs)"
    by (simp add: MessageStore_init_def)
  with held read show ?thesis
    by blast
qed

theorem get_all_preserves_insertion_order_witness:
  "fst (get_all (calls MessageStore_init
          [Add ''You'' ''one'' (Some 5) 100 ''12:00'', Add ''You'' ''two'' None 101 ''12:00'',
           Add ''Bob'' ''three'' (Some 60) 102 ''12:00'', GetAll 103]) 106)
     = [\<lparr>sender = ''You'', message = ''two'', expiry = None, time = ''12:00''\<rparr>,
        \<lparr>sender = ''Bob'', message = ''three'', expiry = Some 162, time = ''12:00''\<rparr>]
   \<and> subseq [\<lparr>sender = ''You'', message = ''two'', expiry = None, time = ''12:00''\<rparr>,
        \<lparr>sender = ''Bob'', message = ''three'', expiry = Some 162, time = ''12:00''\<rparr>]
       (added [Add ''You'' ''one'' (Some 5) 100 ''12:00'', Add ''You'' ''two'' None 101 ''12:00'',
           Add ''Bob'' ''three'' (Some 60) 102 ''12:00'', GetAll 103])"
proof -
  let ?cs = "[Add ''You'' ''one'' (Some 5) 100 ''12:00'', Add ''You'' ''two'' None 101 ''12:00'',
           Add ''Bob'' ''three'' (Some 60) 102 ''12:00'', GetAll 103]"
  have run: "fst (get_all (calls MessageStore_init ?cs) 106)
     = [\<lparr>sender = ''You'', message = ''two'', expiry = None, time = ''12:00''\<rparr>,
        \<lparr>sender = ''Bob'', message = ''three'', expiry = Some 162, time = ''12:00''\<rparr>]"
    by (simp add: calls_def add_def float_of_int_def MessageStore_init_def fst_get_all
        messages_snd_get_all keeps_def)
  from get_all_preserves_insertion_order [of MessageStore_init ?cs 106] run show ?thesis
    by simp
qed

section \<open>Properties of \<open>connect_to_peer\<close>\<close>

lemma add_notice:
  "add st sndr msg None now hhmm =
     Inr (st\<lparr>messages := messages st @
            [\<lparr>sender = sndr, message = msg, expiry = None, time = hhmm\<rparr>]\<rparr>)"
  by (simp add: add_falsy_ttl)

lemma messages_refresh_chat:
  "messages (store (refresh_chat a now)) = filter (keeps now) (messages (store a))"
  by (simp add: refresh_chat_def messages_snd_get_all)

lemma refresh_chat_fields:
  "crypto (refresh_chat a now) = crypto a"
  "is_connected (refresh_chat a now) = is_connected a"
  "peer_id (refresh_chat a now) = peer_id a"
  by (simp_all add: refresh_chat_def)

lemma keeps_notice:
  "keeps now \<lparr>sender = sndr, message = msg, expiry = None, time = hhmm\<rparr>"
  by (simp add: keeps_def)

lemma fromhex_loop_length:
  "fromhex_loop s = Inr k \<Longrightarrow> \<forall>c \<in> set s. \<not> Py_ISSPACE c \<Longrightarrow> length s = 2 * length k"
proof (induction s arbitrary: k rule: fromhex_loop.induct)
  case 1
  then show ?case by simp
next
  case (2 c)
  then show ?case by simp
next
  case (3 c d ds)
  from "3.prems" obtain bs where bs: "fromhex_loop ds = Inr bs" and k: "length k = Suc (length bs)"
    by (auto split: if_splits sum.splits)
  from "3.prems" have digits: "\<not> Py_ISSPACE c" "\<not> 16 \<le> PyLong_DigitValue c" "\<not> 16 \<le> PyLong_DigitValue d"
    by (auto split: if_splits)
  from "3.prems" have "\<forall>c \<in> set ds. \<not> Py_ISSPACE c"
    by simp
  with digits bs have "length ds = 2 * length bs"
    by (intro "3.IH"(2))
  with k show ?case by simp
qed

lemma fromhex_length:
  assumes "fromhex s = Inr k" and "\<forall>c \<in> set s. \<not> Py_ISSPACE c"
  shows "length s = 2 * length k"
proof -
  from assms(1) have "fromhex_loop s = Inr k"
    by (simp add: fromhex_def split: if_splits)
  then show ?thesis
    using assms(2) by (rule fromhex_loop_length)
qed

text \<open>
  C6. When \<^verbatim>\<open>bytes.fromhex\<close> raises on the padded peer id, \<open>connect_to_peer\<close> returns
  normally; the store then holds its earlier messages (pruned by the refresh) followed by
  a message from \<open>System\<close> whose text is \<open>Connection failed: \<close> and the text of the
  exception; the connected flag, the crypto manager with its peer key and the peer id are
  as before.
\<close>

theorem connect_failure_is_reported:
  assumes "fromhex (ljust pid 64 (CHR ''0'')) = Inl e"
  shows "\<exists>self'. connect_to_peer str_ex self pid hhmm now = Inr self'
           \<and> messages (store self') =
               filter (keeps now) (messages (store self)) @
                 [\<lparr>sender = ''System'', message = ''Connection failed: '' @ str_ex e,
                   expiry = None, time = hhmm\<rparr>]
           \<and> is_connected self' = is_connected self
           \<and> crypto self' = crypto self
           \<and> peer_key (crypto self') = peer_key (crypto self)
           \<and> peer_id self' = peer_id self"
proof -
  have body: "connect_try self pid hhmm now = Inl (e, self)"
    using assms by (simp add: connect_try_def)
  let ?st = "(store self)\<lparr>messages := messages (store self) @
               [\<lparr>sender = ''System'', message = ''Connection failed: '' @ str_ex e,
                 expiry = None, time = hhmm\<rparr>]\<rparr>"
  have "connect_to_peer str_ex self pid hhmm now = Inr (refresh_chat (self\<lparr>store := ?st\<rparr>) now)"
    by (simp add: connect_to_peer_def body add_notice)
  then show ?thesis
    by (simp add: messages_refresh_chat refresh_chat_fields keeps_notice)
qed

theorem connect_failure_is_reported_witness:
  "fromhex (ljust ''not-hex!!'' 64 (CHR ''0'')) = Inl ValueError
   \<and> (\<exists>self'. connect_to_peer (case_error ''bad hex'' ''overflow'' ''division'')
                  (P2PChatApp_init [1, 2, 3]) ''not-hex!!'' ''12:00'' 100 = Inr self'
          \<and> messages (store self') =
               [\<lparr>sender = ''System'', message = ''Connection failed: bad hex'',
                 expiry = None, time = ''12:00''\<rparr>]
          \<and> is_connected self' = False
          \<and> peer_key (crypto self') = None
          \<and> peer_id self' = None)"
proof -
  have h: "fromhex (ljust ''not-hex!!'' 64 (CHR ''0'')) = Inl ValueError"
    by (simp add: fromhex_def ljust_def Py_ISSPACE_def PyLong_DigitValue_def)
  from connect_failure_is_reported [OF h, where self = "P2PChatApp_init [1, 2, 3]"
      and str_ex = "case_error ''bad hex'' ''overflow'' ''division''" and hhmm = "''12:00''" and now = 100]
    h show ?thesis
    by (auto simp add: P2PChatApp_init_def CryptoManager_init_def MessageStore_init_def)
qed

text \<open>
  C7 (as amended). When the \<^verbatim>\<open>try\<close> block of \<open>connect_to_peer\<close> completes,
  \<^verbatim>\<open>bytes.fromhex\<close> has decoded the peer id padded with \<open>0\<close> to at least 64 characters,
  the decoded bytes are the stored peer key, the connected flag is set, the peer id is
  recorded and the only message appended is the notice \<open>Connected to peer ...\<close>. The key
  has exactly 32 bytes when the peer id has at most 64 characters and no whitespace;
  \<open>ljust\<close> never shortens and \<^verbatim>\<open>fromhex\<close> skips whitespace, so other ids give other
  lengths.
\<close>

theorem connect_success_sets_peer_key:
  assumes "connect_try self pid hhmm now = Inr self'"
  shows "connect_to_peer str_ex self pid hhmm now = Inr self'
         \<and> (\<exists>k. fromhex (ljust pid 64 (CHR ''0'')) = Inr k
                \<and> peer_key (crypto self') = Some k
                \<and> (length pid \<le> 64 \<and> (\<forall>c \<in> set pid. \<not> Py_ISSPACE c) \<longrightarrow> length k = 32))
         \<and> key (crypto self') = key (crypto self)
         \<and> is_connected self'
         \<and> peer_id self' = Some pid
         \<and> messages (store self') =
               filter (keeps now) (messages (store self)) @
                 [\<lparr>sender = ''System'', message = ''Connected to peer '' @ take 8 pid @ ''...'',
                   expiry = None, time = hhmm\<rparr>]"
proof -
  from assms obtain k where k: "fromhex (ljust pid 64 (CHR ''0'')) = Inr k"
    by (cases "fromhex (ljust pid 64 (CHR ''0''))") (simp_all add: connect_try_def)
  let ?self1 = "self\<lparr>crypto := set_peer_key (crypto self) k, peer_id := Some pid, is_connected := True\<rparr>"
  let ?st = "(store self)\<lparr>messages := messages (store self) @
               [\<lparr>sender = ''System'', message = ''Connected to peer '' @ take 8 pid @ ''...'',
                 expiry = None, time = hhmm\<rparr>]\<rparr>"
  have "connect_try self pid hhmm now = Inr (refresh_chat (?self1\<lparr>store := ?st\<rparr>) now)"
    using k by (simp add: connect_try_def add_notice)
  with assms have self': "self' = refresh_chat (?self1\<lparr>store := ?st\<rparr>) now"
    by simp
  have len: "length k = 32" if "length pid \<le> 64" and "\<forall>c \<in> set pid. \<not> Py_ISSPACE c"
  proof -
    have "\<forall>c \<in> set (ljust pid 64 (CHR ''0'')). \<not> Py_ISSPACE c"
      using that(2) by (auto simp: ljust_def Py_ISSPACE_def)
    with k have "length (ljust pid 64 (CHR ''0'')) = 2 * length k"
      by (rule fromhex_length)
    moreover have "length (ljust pid 64 (CHR ''0'')) = 64"
      using that(1) by (simp add: ljust_def)
    ultimately show ?thesis by simp
  qed
  have "connect_to_peer str_ex self pid hhmm now = Inr self'"
    using assms by (simp add: connect_to_peer_def)
  moreover have "peer_key (crypto self') = Some k" "key (crypto self') = key (crypto self)"
    "is_connected self'" "peer_id self' = Some pid"
    by (simp_all add: self' refresh_chat_fields set_peer_key_def)
  moreover have "messages (store self') =
               filter (keeps now) (messages (store self)) @
                 [\<lparr>sender = ''System'', message = ''Connected to peer '' @ take 8 pid @ ''...'',
                   expiry = None, time = hhmm\<rparr>]"
    by (simp add: self' messages_refresh_chat keeps_notice)
  ultimately show ?thesis
    using k len by blast
qed

theorem connect_success_sets_peer_key_witness:
  "connect_try (P2PChatApp_init [1, 2, 3]) ''a1b2c3d4e5f60718'' ''12:00'' 100
     = Inr \<lparr>crypto = \<lparr>key = [1, 2, 3], peer_key = Some [161, 178, 195, 212, 229, 246, 7, 24, 0, 0, 0, 0, 0, 0, 0, 0, 0, 0, 0, 0, 0, 0, 0, 0, 0, 0, 0, 0, 0, 0, 0, 0]\<rparr>,
        store = \<lparr>messages = [\<lparr>sender = ''System'', message = ''Connected to peer a1b2c3d4...'',
                                      expiry = None, time = ''12:00''\<rparr>]\<rparr>,
        is_connected = True, peer_id = Some ''a1b2c3d4e5f60718''\<rparr>
   \<and> connect_to_peer (case_error ''bad hex'' ''overflow'' ''division'')
        (P2PChatApp_init [1, 2, 3]) ''a1b2c3d4e5f60718'' ''12:00'' 100
     = Inr \<lparr>crypto = \<lparr>key = [1, 2, 3], peer_key = Some [161, 178, 195, 212, 229, 246, 7, 24, 0, 0, 0, 0, 0, 0, 0, 0, 0, 0, 0, 0, 0, 0, 0, 0, 0, 0, 0, 0, 0, 0, 0, 0]\<rparr>,
        store = \<lparr>messages = [\<lparr>sender = ''System'', message = ''Connected to peer a1b2c3d4...'',
                                      expiry = None, time = ''12:00''\<rparr>]\<rparr>,
        is_connected = True, peer_id = Some ''a1b2c3d4e5f60718''\<rparr>
   \<and> fromhex (ljust ''a1b2c3d4e5f60718'' 64 (CHR ''0''))
     = Inr [161, 178, 195, 212, 229, 246, 7, 24, 0, 0, 0, 0, 0, 0, 0, 0, 0, 0, 0, 0, 0, 0, 0, 0, 0, 0, 0, 0, 0, 0, 0, 0]
   \<and> length ([161, 178, 195, 212, 229, 246, 7, 24, 0, 0, 0, 0, 0, 0, 0, 0, 0, 0, 0, 0, 0, 0, 0, 0, 0, 0, 0, 0, 0, 0, 0, 0] :: byte list) = 32"
proof -
  have h: "connect_try (P2PChatApp_init [1, 2, 3]) ''a1b2c3d4e5f60718'' ''12:00'' 100
     = Inr \<lparr>crypto = \<lparr>key = [1, 2, 3], peer_key = Some [161, 178, 195, 212, 229, 246, 7, 24, 0, 0, 0, 0, 0, 0, 0, 0, 0, 0, 0, 0, 0, 0, 0, 0, 0, 0, 0, 0, 0, 0, 0, 0]\<rparr>,
        store = \<lparr>messages = [\<lparr>sender = ''System'', message = ''Connected to peer a1b2c3d4...'',
                                      expiry = None, time = ''12:00''\<rparr>]\<rparr>,
        is_connected = True, peer_id = Some ''a1b2c3d4e5f60718''\<rparr>"
  proof -
    have "fromhex (ljust ''a1b2c3d4e5f60718'' 64 (CHR ''0''))
            = Inr [161, 178, 195, 212, 229, 246, 7, 24, 0, 0, 0, 0, 0, 0, 0, 0, 0, 0, 0, 0, 0, 0, 0, 0, 0, 0, 0, 0, 0, 0, 0, 0]"
      by code_simp
    then show ?thesis
      by (simp add: connect_try_def add_notice set_peer_key_def refresh_chat_def get_all_def
          cleanup_expired_def keeps_def P2PChatApp_init_def CryptoManager_init_def
          MessageStore_init_def)
  qed
  from connect_success_sets_peer_key [OF h, where str_ex = "case_error ''bad hex'' ''overflow'' ''division''"]
    h show ?thesis
    by auto
qed

theorem connect_success_sets_peer_key_counterexample:
  "connect_to_peer (case_error ''bad hex'' ''overflow'' ''division'')
        (P2PChatApp_init [1, 2, 3])
        ''a1b2c3d4e5f60718a1b2c3d4e5f60718a1b2c3d4e5f60718a1b2c3d4e5f60718a1'' ''12:00'' 100
     = Inr \<lparr>crypto = \<lparr>key = [1, 2, 3], peer_key = Some [161, 178, 195, 212, 229, 246, 7, 24, 161, 178, 195, 212, 229, 246, 7, 24, 161, 178, 195, 212, 229, 246, 7, 24, 161, 178, 195, 212, 229, 246, 7, 24, 161]\<rparr>,
        store = \<lparr>messages = [\<lparr>sender = ''System'', message = ''Connected to peer a1b2c3d4...'',
                                      expiry = None, time = ''12:00''\<rparr>]\<rparr>,
        is_connected = True, peer_id = Some ''a1b2c3d4e5f60718a1b2c3d4e5f60718a1b2c3d4e5f60718a1b2c3d4e5f60718a1''\<rparr>
   \<and> length ([161, 178, 195, 212, 229, 246, 7, 24, 161, 178, 195, 212, 229, 246, 7, 24, 161, 178, 195, 212, 229, 246, 7, 24, 161, 178, 195, 212, 229, 246, 7, 24, 161] :: byte list) = 33"
proof -
  have "fromhex (ljust ''a1b2c3d4e5f60718a1b2c3d4e5f60718a1b2c3d4e5f60718a1b2c3d4e5f60718a1'' 64 (CHR ''0''))
          = Inr [161, 178, 195, 212, 229, 246, 7, 24, 161, 178, 195, 212, 229, 246, 7, 24, 161, 178, 195, 212, 229, 246, 7, 24, 161, 178, 195, 212, 229, 246, 7, 24, 161]"
    by code_simp
  then show ?thesis
    by (simp add: connect_to_peer_def connect_try_def add_notice set_peer_key_def
        refresh_chat_def get_all_def cleanup_expired_def keeps_def P2PChatApp_init_def
        CryptoManager_init_def MessageStore_init_def)
qed

end
